theory Spec2Isabelle
  imports
    Complex_Main
    "HOL-Library.Char_ord"
    "HOL-Library.List_Lexorder"
    "HOL-Library.Product_Lexorder"
begin

section \<open>World Bank economic indicators ETL: data model\<close>

text \<open>
  The pipeline of \<^verbatim>\<open>src/main.py\<close> moves a pandas DataFrame through
  \<^verbatim>\<open>EconomicDataTransformer\<close> and writes it to four MySQL tables with
  \<^verbatim>\<open>MySQLLoader\<close>. A DataFrame is modelled as the list of its rows, in frame order.

  A row of the extracted frame may hold nulls in the columns the code itself checks for
  nulls (\<^verbatim>\<open>country_code\<close>, \<^verbatim>\<open>year\<close>, \<^verbatim>\<open>value\<close>); a null is \<open>None\<close>.
  The row type is polymorphic in the types of these three columns, so that the same
  column names serve the nullable frame and the frame that passed the data quality checks.
  The column \<^verbatim>\<open>value\<close> is called \<open>val\<close>. Floating point numbers are modelled
  as exact rationals (rounding error is not modelled), and \<^verbatim>\<open>datetime\<close> values as
  natural numbers.
\<close>

datatype error =
    AssertionError string
  | Error string

record ('c, 'y, 'v) frame_row =
  country_code :: 'c
  country_name :: string
  indicator_code :: string
  indicator_name :: string
  year :: 'y
  val :: 'v
  extracted_at :: nat

record ('c, 'y, 'v) enriched_row = "('c, 'y, 'v) frame_row" +
  decade :: 'y
  period :: "string option"
  continent :: "string option"

type_synonym raw_row = "(string option, int option, rat option) frame_row"
type_synonym nullable_row = "(string option, int option, rat option) enriched_row"
type_synonym row = "(string, int, rat) enriched_row"

section \<open>Transform\<close>

text \<open>
  \<^verbatim>\<open>DataFrame.drop_duplicates(subset=...)\<close> keeps, for every value of the subset
  columns, the first row that has it (\<^verbatim>\<open>keep='first'\<close> is the default); nulls compare
  equal to each other.
\<close>

fun drop_duplicates_from :: "'k list \<Rightarrow> ('a \<Rightarrow> 'k) \<Rightarrow> 'a list \<Rightarrow> 'a list" where
  "drop_duplicates_from seen cols [] = []"
| "drop_duplicates_from seen cols (r # rs) =
     (if cols r \<in> set seen then drop_duplicates_from seen cols rs
      else r # drop_duplicates_from (cols r # seen) cols rs)"

definition drop_duplicates :: "('a \<Rightarrow> 'k) \<Rightarrow> 'a list \<Rightarrow> 'a list" where
  "drop_duplicates cols df = drop_duplicates_from [] cols df"

definition key3 :: "('c, 'y, 'v, 'z) frame_row_scheme \<Rightarrow> 'c \<times> string \<times> 'y" where
  "key3 r = (country_code r, indicator_code r, year r)"

definition dropna :: "('c, 'y, 'v option, 'z) frame_row_scheme list
    \<Rightarrow> ('c, 'y, 'v option, 'z) frame_row_scheme list" where
  "dropna df = filter (\<lambda>r. val r \<noteq> None) df"

text \<open>
  \<^verbatim>\<open>pd.cut(x, bins, labels, include_lowest=True)\<close>. The call does not pass
  \<^verbatim>\<open>right\<close>, whose default is \<^verbatim>\<open>True\<close>: every bin is the interval \<open>(lo, hi]\<close>,
  closed on the right; \<^verbatim>\<open>include_lowest\<close> closes the first bin on the left as well.
  A value in no bin gets no label (NaN). The flag of \<open>pd_cut\<close> says whether the bin at
  the head of the list is the first one.
\<close>

fun pd_cut :: "bool \<Rightarrow> int list \<Rightarrow> string list \<Rightarrow> int \<Rightarrow> string option" where
  "pd_cut lowest (lo # hi # bins) (l # labels) y =
     (if (lo < y \<or> (lowest \<and> y = lo)) \<and> y \<le> hi then Some l
      else pd_cut False (hi # bins) labels y)"
| "pd_cut lowest bins labels y = None"

definition period_of :: "int \<Rightarrow> string option" where
  "period_of y =
     pd_cut True [2000, 2010, 2015, 2020, 2025]
       [''2000s'', ''2010-2015'', ''2015-2020'', ''2020s''] y"

definition continent_map :: "(string \<times> string) list" where
  "continent_map =
     [(''IND'', ''Asia''), (''CHN'', ''Asia''), (''JPN'', ''Asia''),
      (''USA'', ''North America''), (''BRA'', ''South America''),
      (''GBR'', ''Europe''), (''DEU'', ''Europe'')]"

text \<open>
  \<^verbatim>\<open>Series.round(2)\<close> rounds to two decimals, ties to the even neighbour.
\<close>

definition round_half_even :: "rat \<Rightarrow> int" where
  "round_half_even x =
     (let f = \<lfloor>x\<rfloor>; d = x - of_int f
      in if d < 1 / 2 then f else if 1 / 2 < d then f + 1
         else if even f then f else f + 1)"

definition round2 :: "rat \<Rightarrow> rat" where
  "round2 x = of_int (round_half_even (x * 100)) / 100"

text \<open>
  The derived columns of one row: \<^verbatim>\<open>decade\<close>, \<^verbatim>\<open>period\<close>, \<^verbatim>\<open>continent\<close>, and the
  rounded \<^verbatim>\<open>value\<close>. Arithmetic on a null gives a null, \<^verbatim>\<open>pd.cut\<close> of a null is a
  null, and \<^verbatim>\<open>Series.map\<close> gives a null for a key that the dictionary lacks.
\<close>

definition add_derived :: "raw_row \<Rightarrow> nullable_row" where
  "add_derived r =
     \<lparr>country_code = country_code r, country_name = country_name r,
      indicator_code = indicator_code r, indicator_name = indicator_name r,
      year = year r, val = map_option round2 (val r), extracted_at = extracted_at r,
      decade = map_option (\<lambda>y. (y div 10) * 10) (year r),
      period = (case year r of None \<Rightarrow> None | Some y \<Rightarrow> period_of y),
      continent = (case country_code r of None \<Rightarrow> None | Some c \<Rightarrow> map_of continent_map c)\<rparr>"

text \<open>
  A frame that passed the three assertions has no null in \<^verbatim>\<open>country_code\<close> and
  \<^verbatim>\<open>year\<close>, and after \<^verbatim>\<open>dropna\<close> none in \<^verbatim>\<open>value\<close>: it is returned in the type
  of rows without nulls in these columns. The frame is taken to have its columns also
  when it has no rows.
\<close>

definition checked :: "nullable_row \<Rightarrow> row option" where
  "checked r =
     (case (country_code r, year r, val r, decade r) of
        (Some c, Some y, Some v, Some d) \<Rightarrow>
          Some \<lparr>country_code = c, country_name = country_name r,
                indicator_code = indicator_code r, indicator_name = indicator_name r,
                year = y, val = v, extracted_at = extracted_at r,
                decade = d, period = period r, continent = continent r\<rparr>
      | _ \<Rightarrow> None)"

definition transform :: "raw_row list \<Rightarrow> error + row list" where
  "transform df0 =
     (let df1 = drop_duplicates key3 df0;
          df2 = dropna df1;
          df = map add_derived df2
      in if list_ex (\<lambda>r. country_code r = None) df
           then Inl (AssertionError ''Null country codes found'')
         else if list_ex (\<lambda>r. year r = None) df
           then Inl (AssertionError ''Null years found'')
         else if \<not> list_all (\<lambda>r. case year r of None \<Rightarrow> False | Some y \<Rightarrow> 2000 \<le> y) df
           then Inl (AssertionError ''Invalid years found'')
         else Inr (List.map_filter checked df))"

text \<open>
  The key columns of a checked row, read as a key of the frame it came from.
\<close>

definition key3_of_checked :: "row \<Rightarrow> string option \<times> string \<times> int option" where
  "key3_of_checked r = (Some (country_code r), indicator_code r, Some (year r))"

section \<open>Aggregations\<close>

text \<open>
  A float that results from a division: finite, an infinity, or NaN (the
  year-over-year change divides by the previous value, which may be zero).
\<close>

datatype fval = Fin rat | PInf | NInf | NaN

definition float_div :: "rat \<Rightarrow> rat \<Rightarrow> fval" where
  "float_div a b =
     (if b \<noteq> 0 then Fin (a / b)
      else if 0 < a then PInf else if a < 0 then NInf else NaN)"

fun float_sub :: "fval \<Rightarrow> rat \<Rightarrow> fval" where
  "float_sub (Fin a) c = Fin (a - c)"
| "float_sub x c = x"

fun float_mul :: "fval \<Rightarrow> rat \<Rightarrow> fval" where
  "float_mul (Fin a) c = Fin (a * c)"
| "float_mul PInf c = (if 0 < c then PInf else if c < 0 then NInf else NaN)"
| "float_mul NInf c = (if 0 < c then NInf else if c < 0 then PInf else NaN)"
| "float_mul NaN c = NaN"

definition group2 :: "('c, 'y, 'v, 'z) frame_row_scheme \<Rightarrow> 'c \<times> string" where
  "group2 r = (country_code r, indicator_code r)"

text \<open>
  \<^verbatim>\<open>groupby(...).last()\<close>: one row per group, the groups in ascending order of their
  keys; every column holds the last non-null entry that the group has in it. Only
  \<^verbatim>\<open>period\<close> and \<^verbatim>\<open>continent\<close> can be null in a checked frame. Every key
  in the list of keys comes from a row, so no group is empty.
\<close>

definition last_valid :: "'a option list \<Rightarrow> 'a option" where
  "last_valid xs = (case filter (\<lambda>x. x \<noteq> None) xs of [] \<Rightarrow> None | y # ys \<Rightarrow> last (y # ys))"

definition groupby_last :: "row list \<Rightarrow> row list" where
  "groupby_last df =
     map (\<lambda>k. let g = filter (\<lambda>r. group2 r = k) df
              in \<lparr>country_code = fst k, country_name = last (map country_name g),
                  indicator_code = snd k, indicator_name = last (map indicator_name g),
                  year = last (map year g), val = last (map val g),
                  extracted_at = last (map extracted_at g),
                  decade = last (map decade g),
                  period = last_valid (map period g),
                  continent = last_valid (map continent g)\<rparr>)
         (sort (remdups (map group2 df)))"

text \<open>
  \<^verbatim>\<open>groupby(...)['value'].pct_change()\<close>: every row is compared with the row of its
  own group that is nearest above it in the frame, \<open>value / previous - 1\<close>; the first
  row of a group gets NaN. The first argument holds the rows above, nearest first.
\<close>

fun groupby_pct_change :: "row list \<Rightarrow> row list \<Rightarrow> fval list" where
  "groupby_pct_change prevs [] = []"
| "groupby_pct_change prevs (r # rs) =
     (case find (\<lambda>p. group2 p = group2 r) prevs of
        None \<Rightarrow> NaN
      | Some p \<Rightarrow> float_sub (float_div (val r) (val p)) 1)
     # groupby_pct_change (r # prevs) rs"

definition decade_key :: "row \<Rightarrow> string \<times> string \<times> int" where
  "decade_key r = (country_code r, indicator_code r, decade r)"

record summaries =
  latest_values :: "row list"
  yoy_changes :: "(row \<times> fval) list"
  decade_averages :: "(string \<times> string \<times> int \<times> rat) list"

text \<open>
  \<^verbatim>\<open>sort_values\<close> is modelled as the stable insertion sort \<open>sort_key\<close>. A row of
  \<open>yoy_changes\<close> is a row of the frame with its \<^verbatim>\<open>yoy_change\<close> column.
\<close>

definition create_aggregations :: "row list \<Rightarrow> summaries" where
  "create_aggregations df =
     (let latest = groupby_last (sort_key year df);
          yoy = sort_key key3 df;
          yoy_change = map (\<lambda>c. float_mul c 100) (groupby_pct_change [] yoy);
          decade_avg =
            map (\<lambda>k. let vs = map val (filter (\<lambda>r. decade_key r = k) df)
                     in (fst k, fst (snd k), snd (snd k), sum_list vs / of_nat (length vs)))
                (sort (remdups (map decade_key df)))
      in \<lparr>latest_values = latest,
          yoy_changes = filter (\<lambda>(r, c). c \<noteq> NaN) (zip yoy yoy_change),
          decade_averages = decade_avg\<rparr>)"


section \<open>Storage\<close>

text \<open>
  A table is the list of its rows, in order of insertion. The rows of
  \<^verbatim>\<open>economic_indicators\<close> have the columns of a checked frame; those of the other
  tables are tuples in the order of the columns of their \<^verbatim>\<open>INSERT\<close>:
  \<^verbatim>\<open>latest_indicators\<close> (country_code, indicator_code, latest_year, latest_value),
  \<^verbatim>\<open>yoy_changes\<close> (country_code, indicator_code, year, value, yoy_change),
  \<^verbatim>\<open>country_summary\<close> (country_code, country_name, total_indicators, latest_gdp,
  latest_population, avg_gdp_growth). The surrogate \<^verbatim>\<open>id\<close> and the timestamps that
  the server sets (\<^verbatim>\<open>loaded_at\<close>, \<^verbatim>\<open>updated_at\<close>) are not modelled, nor is the
  coercion of a value to the \<^verbatim>\<open>DECIMAL\<close> type of its column.
\<close>

type_synonym latest_rec = "string \<times> string \<times> int \<times> rat"
type_synonym yoy_rec = "string \<times> string \<times> int \<times> rat \<times> fval"
type_synonym summary_rec = "string \<times> string \<times> nat \<times> rat option \<times> rat option \<times> rat option"

record tables =
  economic_indicators :: "row list"
  latest_indicators :: "latest_rec list"
  yoy_changes_table :: "yoy_rec list"
  country_summary :: "summary_rec list"

text \<open>
  \<^verbatim>\<open>INSERT ... ON DUPLICATE KEY UPDATE\<close>: the stored row that has the unique key of
  the new row is updated as the statement says; without such a row the new row is added.
\<close>

fun upsert :: "('r \<Rightarrow> 'k) \<Rightarrow> ('r \<Rightarrow> 'r \<Rightarrow> 'r) \<Rightarrow> 'r \<Rightarrow> 'r list \<Rightarrow> 'r list" where
  "upsert ukey on_dup new [] = [new]"
| "upsert ukey on_dup new (old # t) =
     (if ukey old = ukey new then on_dup old new # t
      else old # upsert ukey on_dup new t)"

definition on_duplicate_main :: "row \<Rightarrow> row \<Rightarrow> row" where
  "on_duplicate_main old new = old\<lparr>val := val new, extracted_at := extracted_at new\<rparr>"

definition unique_latest :: "latest_rec \<Rightarrow> string \<times> string" where
  "unique_latest = (\<lambda>(c, i, y, v). (c, i))"

definition on_duplicate_latest :: "latest_rec \<Rightarrow> latest_rec \<Rightarrow> latest_rec" where
  "on_duplicate_latest = (\<lambda>(c, i, y, v) (c', i', y', v'). (c, i, y', v'))"

definition unique_yoy :: "yoy_rec \<Rightarrow> string \<times> string \<times> int" where
  "unique_yoy = (\<lambda>(c, i, y, v, g). (c, i, y))"

definition on_duplicate_yoy :: "yoy_rec \<Rightarrow> yoy_rec \<Rightarrow> yoy_rec" where
  "on_duplicate_yoy = (\<lambda>(c, i, y, v, g) (c', i', y', v', g'). (c, i, y, v', g'))"

definition unique_country :: "summary_rec \<Rightarrow> string" where
  "unique_country = (\<lambda>(c, n, t, g, p, a). c)"

definition on_duplicate_summary :: "summary_rec \<Rightarrow> summary_rec \<Rightarrow> summary_rec" where
  "on_duplicate_summary = (\<lambda>(c, n, t, g, p, a) (c', n', t', g', p', a'). (c, n, t', g', p', a'))"

text \<open>
  The \<^verbatim>\<open>SELECT\<close> of \<^verbatim>\<open>create_country_summary\<close>. The inner query numbers the rows
  of every (country_code, indicator_code) partition by descending year and the outer one
  keeps number 1; rows of equal year are taken in table order. The outer query groups by
  (country_code, country_name); the groups are listed in the order of their last
  members, an order that SQL leaves open.
\<close>

definition rn_1 :: "row list \<Rightarrow> row list" where
  "rn_1 t =
     concat (map (\<lambda>k. take 1 (sort_key (\<lambda>r. - year r) (filter (\<lambda>r. group2 r = k) t)))
                 (remdups (map group2 t)))"

definition sql_max :: "rat list \<Rightarrow> rat option" where
  "sql_max xs = (case xs of [] \<Rightarrow> None | x # ys \<Rightarrow> Some (fold max ys x))"

definition sql_avg :: "rat list \<Rightarrow> rat option" where
  "sql_avg xs = (if xs = [] then None else Some (sum_list xs / of_nat (length xs)))"

definition summary_select :: "row list \<Rightarrow> summary_rec list" where
  "summary_select t =
     (let e = rn_1 t
      in map (\<lambda>(c, n).
               let g = filter (\<lambda>r. country_code r = c \<and> country_name r = n) e;
                   of_indicator = (\<lambda>i. map val (filter (\<lambda>r. indicator_code r = i) g))
               in (c, n, length (remdups (map indicator_code g)),
                   sql_max (of_indicator ''NY.GDP.MKTP.CD''),
                   sql_max (of_indicator ''SP.POP.TOTL''),
                   sql_avg (of_indicator ''NY.GDP.MKTP.KD.ZG'')))
             (remdups (map (\<lambda>r. (country_code r, country_name r)) e)))"

text \<open>
  What the loader asks of the connection. Whether an operation fails
  (\<^verbatim>\<open>mysql.connector.Error\<close>) is up to the server and the connector: it is a
  parameter \<open>fails\<close> of every loader function.
\<close>

datatype db_op =
    CreateTables
  | InsertMain row
  | InsertLatest latest_rec
  | InsertYoY yoy_rec
  | InsertSummary
  | Commit

definition apply_op :: "db_op \<Rightarrow> tables \<Rightarrow> tables" where
  "apply_op op t =
     (case op of
        CreateTables \<Rightarrow> t
      | InsertMain r \<Rightarrow>
          t\<lparr>economic_indicators := upsert key3 on_duplicate_main r (economic_indicators t)\<rparr>
      | InsertLatest l \<Rightarrow>
          t\<lparr>latest_indicators := upsert unique_latest on_duplicate_latest l (latest_indicators t)\<rparr>
      | InsertYoY y \<Rightarrow>
          t\<lparr>yoy_changes_table := upsert unique_yoy on_duplicate_yoy y (yoy_changes_table t)\<rparr>
      | InsertSummary \<Rightarrow>
          t\<lparr>country_summary :=
              fold (upsert unique_country on_duplicate_summary)
                (summary_select (economic_indicators t)) (country_summary t)\<rparr>
      | Commit \<Rightarrow> t)"

section \<open>Load\<close>

text \<open>
  The state of a \<^verbatim>\<open>MySQLLoader\<close> with an open connection: the data that the server
  has committed, and the data as the connection sees it, with the changes of its open
  transaction (the connector's default is \<^verbatim>\<open>autocommit=False\<close>). A loader function
  returns the error it raises, if any, and the state it leaves.
\<close>

record db =
  committed :: tables
  working :: tables

definition execute :: "(db_op \<Rightarrow> bool) \<Rightarrow> db_op \<Rightarrow> db \<Rightarrow> error option \<times> db" where
  "execute fails op d =
     (if fails op then (Some (Error ''execute failed''), d)
      else (None, d\<lparr>working := apply_op op (working d)\<rparr>))"

definition commit :: "(db_op \<Rightarrow> bool) \<Rightarrow> db \<Rightarrow> error option \<times> db" where
  "commit fails d =
     (if fails Commit then (Some (Error ''commit failed''), d)
      else (None, d\<lparr>committed := working d\<rparr>))"

definition rollback :: "db \<Rightarrow> db" where
  "rollback d = d\<lparr>working := committed d\<rparr>"

text \<open>Sequencing inside a \<^verbatim>\<open>try\<close> block: the first error ends the block.\<close>

definition and_then ::
  "error option \<times> db \<Rightarrow> (db \<Rightarrow> error option \<times> db) \<Rightarrow> error option \<times> db" where
  "and_then res f = (case res of (None, d) \<Rightarrow> f d | (Some e, d) \<Rightarrow> (Some e, d))"

fun execute_each :: "(db_op \<Rightarrow> bool) \<Rightarrow> db_op list \<Rightarrow> db \<Rightarrow> error option \<times> db" where
  "execute_each fails [] d = (None, d)"
| "execute_each fails (op # ops) d = and_then (execute fails op d) (execute_each fails ops)"

definition create_tables :: "(db_op \<Rightarrow> bool) \<Rightarrow> db \<Rightarrow> error option \<times> db" where
  "create_tables fails d = and_then (execute fails CreateTables d) (commit fails)"

text \<open>
  The parameters of the main \<^verbatim>\<open>INSERT\<close>: \<^verbatim>\<open>str(row['period'])\<close> turns a missing
  period into the string \<^verbatim>\<open>nan\<close>.
\<close>

definition main_values :: "row \<Rightarrow> row" where
  "main_values r = r\<lparr>period := Some (case period r of None \<Rightarrow> ''nan'' | Some p \<Rightarrow> p)\<rparr>"

definition load_main_data :: "(db_op \<Rightarrow> bool) \<Rightarrow> row list \<Rightarrow> db \<Rightarrow> error option \<times> db" where
  "load_main_data fails df d =
     (case and_then (execute_each fails (map (\<lambda>r. InsertMain (main_values r)) df) d)
             (commit fails) of
        (None, d') \<Rightarrow> (None, d')
      | (Some e, d') \<Rightarrow> (Some e, rollback d'))"

definition latest_values_of :: "row \<Rightarrow> latest_rec" where
  "latest_values_of r = (country_code r, indicator_code r, year r, val r)"

definition yoy_values_of :: "row \<times> fval \<Rightarrow> yoy_rec" where
  "yoy_values_of = (\<lambda>(r, c). (country_code r, indicator_code r, year r, val r, c))"

definition load_aggregations ::
  "(db_op \<Rightarrow> bool) \<Rightarrow> summaries \<Rightarrow> db \<Rightarrow> error option \<times> db" where
  "load_aggregations fails s d =
     (case and_then
             (and_then
               (execute_each fails (map (\<lambda>r. InsertLatest (latest_values_of r)) (latest_values s)) d)
               (execute_each fails
                 (map (\<lambda>x. InsertYoY (yoy_values_of x))
                    (filter (\<lambda>(r, c). c \<noteq> NaN) (yoy_changes s)))))
             (commit fails) of
        (None, d') \<Rightarrow> (None, d')
      | (Some e, d') \<Rightarrow> (Some e, rollback d'))"

definition create_country_summary :: "(db_op \<Rightarrow> bool) \<Rightarrow> db \<Rightarrow> error option \<times> db" where
  "create_country_summary fails d = and_then (execute fails InsertSummary d) (commit fails)"

text \<open>
  The operations that the four loader calls of a run send to the server, in order
  (the commits apart).
\<close>

definition load_ops :: "row list \<Rightarrow> summaries \<Rightarrow> db_op list" where
  "load_ops df s =
     CreateTables # map (\<lambda>r. InsertMain (main_values r)) df
     @ map (\<lambda>r. InsertLatest (latest_values_of r)) (latest_values s)
     @ map (\<lambda>x. InsertYoY (yoy_values_of x)) (filter (\<lambda>(r, c). c \<noteq> NaN) (yoy_changes s))
     @ [InsertSummary]"

text \<open>Closing the connection ends its transaction: what it had not committed is lost.\<close>

definition close :: "db \<Rightarrow> tables" where
  "close d = committed d"

section \<open>Pipeline\<close>

text \<open>
  What a run meets outside the program: the records that \<^verbatim>\<open>extract_all_data\<close>
  returns (the HTTP loop is not modelled), what \<^verbatim>\<open>mysql.connector.connect\<close> does, and
  which database operations fail.
\<close>

datatype connect_outcome = Connected | NotConnected | ConnectError

record environment =
  extracted :: "raw_row list"
  connecting :: connect_outcome
  op_fails :: "db_op \<Rightarrow> bool"

text \<open>
  \<^verbatim>\<open>connect\<close> returns \<^verbatim>\<open>True\<close> when connected, \<^verbatim>\<open>False\<close> from its
  \<^verbatim>\<open>except\<close> branch, and falls off its end (\<^verbatim>\<open>None\<close>) when the connection object
  says it is not connected.
\<close>

definition connect :: "connect_outcome \<Rightarrow> bool option" where
  "connect oc = (case oc of Connected \<Rightarrow> Some True | NotConnected \<Rightarrow> None | ConnectError \<Rightarrow> Some False)"

definition truthy :: "bool option \<Rightarrow> bool" where
  "truthy v = (v = Some True)"

text \<open>The four loader calls of \<^verbatim>\<open>run_etl_pipeline\<close>, in its order.\<close>

definition load_steps ::
  "(db_op \<Rightarrow> bool) \<Rightarrow> row list \<Rightarrow> summaries \<Rightarrow> db \<Rightarrow> error option \<times> db" where
  "load_steps fails transformed_data s d =
     and_then
       (and_then
         (and_then (create_tables fails d) (load_main_data fails transformed_data))
         (load_aggregations fails s))
       (create_country_summary fails)"

text \<open>
  \<^verbatim>\<open>run_etl_pipeline\<close> returns its boolean; the model adds the step markers and the
  closing message it logs, and the data the server holds when it returns.
\<close>

definition run_etl_pipeline :: "environment \<Rightarrow> tables \<Rightarrow> bool \<times> string list \<times> tables" where
  "run_etl_pipeline env store =
     (let raw_data = extracted env
      in if raw_data = []
         then (False, [''STEP 1: EXTRACT'', ''No data extracted. Exiting.''], store)
         else
           (case transform raw_data of
              Inl e \<Rightarrow>
                (False, [''STEP 1: EXTRACT'', ''STEP 2: TRANSFORM'', ''Pipeline failed''], store)
            | Inr transformed_data \<Rightarrow>
                (let s = create_aggregations transformed_data
                 in if truthy (connect (connecting env))
                    then
                      (case load_steps (op_fails env) transformed_data s
                              \<lparr>committed = store, working = store\<rparr> of
                         (None, d) \<Rightarrow>
                           (True, [''STEP 1: EXTRACT'', ''STEP 2: TRANSFORM'', ''STEP 3: LOAD'',
                                   ''Pipeline completed successfully''], close d)
                       | (Some e, d) \<Rightarrow>
                           (False, [''STEP 1: EXTRACT'', ''STEP 2: TRANSFORM'', ''STEP 3: LOAD'',
                                    ''Pipeline failed''], committed d))
                    else
                      (True, [''STEP 1: EXTRACT'', ''STEP 2: TRANSFORM'', ''STEP 3: LOAD'',
                              ''Pipeline completed successfully''], store))))"

text \<open>
  The script's last statement calls \<^verbatim>\<open>run_etl_pipeline()\<close> and drops what it
  returns; the interpreter then ends with status 0. The model pairs the exit status with
  the outcome of the run.
\<close>

definition main :: "environment \<Rightarrow> tables \<Rightarrow> nat \<times> bool \<times> string list \<times> tables" where
  "main env store = (0, run_etl_pipeline env store)"

section \<open>Sample data\<close>

text \<open>
  Records of India's GDP as the extractor builds them, the rows that \<open>transform\<close>
  makes of them, an empty database, and a server on which no operation fails.
\<close>

definition gdp_record :: "int \<Rightarrow> rat option \<Rightarrow> raw_row" where
  "gdp_record y v =
     \<lparr>country_code = Some ''IND'', country_name = ''India'',
      indicator_code = ''NY.GDP.MKTP.CD'', indicator_name = ''GDP (current US$)'',
      year = Some y, val = v, extracted_at = 1\<rparr>"

definition gdp_row :: "int \<Rightarrow> rat \<Rightarrow> string option \<Rightarrow> row" where
  "gdp_row y v p =
     \<lparr>country_code = ''IND'', country_name = ''India'',
      indicator_code = ''NY.GDP.MKTP.CD'', indicator_name = ''GDP (current US$)'',
      year = y, val = v, extracted_at = 1,
      decade = (y div 10) * 10, period = p, continent = Some ''Asia''\<rparr>"

definition empty_tables :: tables where
  "empty_tables =
     \<lparr>economic_indicators = [], latest_indicators = [], yoy_changes_table = [],
      country_summary = []\<rparr>"

definition no_failure :: "db_op \<Rightarrow> bool" where
  "no_failure op = False"

definition commit_fails :: "db_op \<Rightarrow> bool" where
  "commit_fails op = (op = Commit)"

definition gdp_rows :: "row list" where
  "gdp_rows =
     [gdp_row 2020 2660000000000 (Some ''2015-2020''),
      gdp_row 2021 3170000000000 (Some ''2020s'')]"

definition gdp_tables :: tables where
  "gdp_tables =
     \<lparr>economic_indicators = gdp_rows,
      latest_indicators = [(''IND'', ''NY.GDP.MKTP.CD'', 2021, 3170000000000)],
      yoy_changes_table =
        [(''IND'', ''NY.GDP.MKTP.CD'', 2021, 3170000000000, Fin (2550 / 133))],
      country_summary = [(''IND'', ''India'', 1, Some 3170000000000, None, None)]\<rparr>"

section \<open>Properties of the transform\<close>

text \<open>
  C4 (period bucket). The code does not compute the buckets with inclusive lower bounds:
  \<^verbatim>\<open>pd.cut\<close> is called without \<^verbatim>\<open>right=False\<close>, so every bin is closed on the
  right. Year 2010 gets the label 2000s, year 2015 the label 2010-2015 and year 2020 the
  label 2015-2020, where the claim expects 2010-2015, 2015-2020 and 2020s; the labels
  2000s and 2020s and the \<^verbatim>\<open>decade\<close> column of the same rows (2010 and 2020) say
  what was meant. The lowest edge 2000 and the highest 2025 are included, and a year
  outside every bin gets no label, as the claim says.
\<close>

theorem period_boundaries_right_closed:
  "period_of 2010 = Some ''2000s'' \<and> period_of 2015 = Some ''2010-2015''
   \<and> period_of 2020 = Some ''2015-2020'' \<and> period_of 2000 = Some ''2000s''
   \<and> period_of 2025 = Some ''2020s'' \<and> period_of 1999 = None \<and> period_of 2026 = None
   \<and> transform [gdp_record 2010 (Some 5)] = Inr [gdp_row 2010 5 (Some ''2000s'')]"
  by (simp add: period_of_def transform_def drop_duplicates_def dropna_def key3_def
      add_derived_def checked_def gdp_record_def gdp_row_def continent_map_def
      round2_def round_half_even_def List.map_filter_def)

lemma in_drop_duplicates_from:
  "r \<in> set (drop_duplicates_from seen cols df) \<Longrightarrow> r \<in> set df \<and> cols r \<notin> set seen"
proof (induction df arbitrary: seen)
  case Nil
  then show ?case by simp
next
  case (Cons x xs)
  show ?case
  proof (cases "cols x \<in> set seen")
    case True
    with Cons.prems have "r \<in> set (drop_duplicates_from seen cols xs)" by simp
    then show ?thesis using Cons.IH by simp
  next
    case False
    with Cons.prems have "r = x \<or> r \<in> set (drop_duplicates_from (cols x # seen) cols xs)"
      by simp
    then show ?thesis
    proof
      assume "r = x"
      with False show ?thesis by simp
    next
      assume "r \<in> set (drop_duplicates_from (cols x # seen) cols xs)"
      then have "r \<in> set xs \<and> cols r \<notin> set (cols x # seen)" by (rule Cons.IH)
      then show ?thesis by simp
    qed
  qed
qed

lemma find_drop_duplicates_from:
  "find (\<lambda>q. cols q = k) (drop_duplicates_from seen cols df) =
     (if k \<in> set seen then None else find (\<lambda>q. cols q = k) df)"
proof (induction df arbitrary: seen)
  case Nil
  then show ?case by simp
next
  case (Cons r rs)
  show ?case
  proof (cases "cols r \<in> set seen")
    case True
    then show ?thesis using Cons.IH [of seen] by auto
  next
    case False
    then show ?thesis using Cons.IH [of "cols r # seen"] by auto
  qed
qed

lemma distinct_drop_duplicates_from:
  "distinct (map cols (drop_duplicates_from seen cols df))"
proof (induction df arbitrary: seen)
  case Nil
  then show ?case by simp
next
  case (Cons r rs)
  have "cols r \<notin> cols ` set (drop_duplicates_from (cols r # seen) cols rs)"
  proof
    assume "cols r \<in> cols ` set (drop_duplicates_from (cols r # seen) cols rs)"
    then obtain x where "x \<in> set (drop_duplicates_from (cols r # seen) cols rs)"
      and "cols x = cols r" by auto
    then show False using in_drop_duplicates_from [of x "cols r # seen" cols rs] by simp
  qed
  with Cons show ?case by simp
qed

lemma find_drop_duplicates:
  "find (\<lambda>q. cols q = k) (drop_duplicates cols df) = find (\<lambda>q. cols q = k) df"
  by (simp add: drop_duplicates_def find_drop_duplicates_from)

lemma distinct_drop_duplicates: "distinct (map cols (drop_duplicates cols df))"
  by (simp add: drop_duplicates_def distinct_drop_duplicates_from)


lemma count_key_distinct:
  "distinct (map cols xs) \<Longrightarrow>
   length (filter (\<lambda>q. cols q = k \<and> P q) xs) =
     (case find (\<lambda>q. cols q = k) xs of None \<Rightarrow> 0 | Some r \<Rightarrow> if P r then 1 else 0)"
proof (induction xs)
  case Nil
  then show ?case by simp
next
  case (Cons x xs)
  show ?case
  proof (cases "cols x = k")
    case True
    with Cons.prems have "\<forall>q \<in> set xs. cols q \<noteq> k" by (auto simp add: image_iff)
    then have "filter (\<lambda>q. cols q = k \<and> P q) xs = []" by (simp add: filter_empty_conv)
    with True show ?thesis by simp
  next
    case False
    with Cons show ?thesis by simp
  qed
qed

lemma checked_add_derived:
  "country_code r = Some c \<Longrightarrow> year r = Some y \<Longrightarrow> val r = Some v \<Longrightarrow>
   \<exists>w. checked (add_derived r) = Some w \<and> key3_of_checked w = key3 r"
  by (simp add: checked_def add_derived_def key3_of_checked_def key3_def)

lemma map_filter_checked:
  "\<forall>r \<in> set rs. country_code r \<noteq> None \<and> year r \<noteq> None \<and> val r \<noteq> None \<Longrightarrow>
   map key3_of_checked (List.map_filter checked (map add_derived rs)) = map key3 rs"
proof (induction rs)
  case Nil
  then show ?case by (simp add: List.map_filter_simps)
next
  case (Cons r rs)
  from Cons.prems obtain c y v where "country_code r = Some c" "year r = Some y" "val r = Some v"
    by auto
  then obtain o' where "checked (add_derived r) = Some o'" "key3_of_checked o' = key3 r"
    using checked_add_derived by blast
  with Cons show ?case by (simp add: List.map_filter_simps)
qed

lemma transform_Inr:
  assumes "transform df0 = Inr out"
  shows "map key3_of_checked out = map key3 (dropna (drop_duplicates key3 df0))"
proof -
  let ?df2 = "dropna (drop_duplicates key3 df0)"
  from assms have ok: "\<forall>r \<in> set ?df2. country_code r \<noteq> None \<and> year r \<noteq> None"
    and out: "out = List.map_filter checked (map add_derived ?df2)"
    by (auto simp add: transform_def Let_def list_ex_iff list_all_iff add_derived_def
        split: if_splits)
  have "\<forall>r \<in> set ?df2. val r \<noteq> None" by (simp add: dropna_def)
  with ok out show ?thesis using map_filter_checked [of ?df2] by simp
qed


lemma transform_total:
  "(\<exists>m. transform df0 = Inl (AssertionError m)) \<or> (\<exists>out. transform df0 = Inr out)"
  by (simp add: transform_def Let_def)





text \<open>
  C6 (deduplication), as the code has it. Whenever \<open>transform\<close> returns a frame, the
  frame has, for every triple (country_code, indicator_code, year), exactly one row if
  the first input row with that triple has a value, and no row otherwise: of the rows
  with one triple the first is kept, and it is dropped again when its value is missing.
\<close>

theorem transform_one_row_per_key:
  assumes "transform df0 = Inr out"
  shows "length (filter (\<lambda>w. key3_of_checked w = k) out) =
           (case find (\<lambda>r. key3 r = k) df0 of
              None \<Rightarrow> 0 | Some r \<Rightarrow> if val r \<noteq> None then 1 else 0)"
proof -
  let ?dd = "drop_duplicates key3 df0"
  have "length (filter (\<lambda>w. key3_of_checked w = k) out) =
        length (filter (\<lambda>x. x = k) (map key3_of_checked out))"
    by (simp add: filter_map comp_def)
  also have "\<dots> = length (filter (\<lambda>x. x = k) (map key3 (dropna ?dd)))"
    using transform_Inr [OF assms] by simp
  also have "\<dots> = length (filter (\<lambda>q. key3 q = k \<and> val q \<noteq> None) ?dd)"
    by (simp add: filter_map comp_def dropna_def conj_commute)
  also have "\<dots> = (case find (\<lambda>q. key3 q = k) ?dd of
                     None \<Rightarrow> 0 | Some r \<Rightarrow> if val r \<noteq> None then 1 else 0)"
    by (rule count_key_distinct) (rule distinct_drop_duplicates)
  finally show ?thesis by (simp add: find_drop_duplicates)
qed

lemma transform_duplicate_records:
  "transform [gdp_record 2020 (Some 1), gdp_record 2020 (Some 2), gdp_record 2021 (Some 3)] =
     Inr [gdp_row 2020 1 (Some ''2015-2020''), gdp_row 2021 3 (Some ''2020s'')]"
  by code_simp

theorem transform_one_row_per_key_witness:
  "transform [gdp_record 2020 (Some 1), gdp_record 2020 (Some 2), gdp_record 2021 (Some 3)] =
     Inr [gdp_row 2020 1 (Some ''2015-2020''), gdp_row 2021 3 (Some ''2020s'')]
   \<and> length (filter (\<lambda>w. key3_of_checked w = (Some ''IND'', ''NY.GDP.MKTP.CD'', Some 2020))
        [gdp_row 2020 1 (Some ''2015-2020''), gdp_row 2021 3 (Some ''2020s'')]) = 1"
  using transform_one_row_per_key [OF transform_duplicate_records,
      of "(Some ''IND'', ''NY.GDP.MKTP.CD'', Some 2020)"]
    transform_duplicate_records
  by (simp add: gdp_record_def key3_def)

theorem triple_without_value_has_no_row:
  "transform [gdp_record 2020 None, gdp_record 2020 (Some 5)] = Inr []"
  by code_simp

section \<open>Properties of the aggregations\<close>


















lemma transform_distinct:
  assumes "transform df0 = Inr out"
  shows "distinct (map key3 out)"
proof -
  have "distinct (map key3 (dropna (drop_duplicates key3 df0)))"
    by (simp add: dropna_def distinct_map_filter distinct_drop_duplicates)
  then have "distinct (map key3_of_checked out)"
    using transform_Inr [OF assms] by simp
  moreover have "map key3_of_checked out = map (\<lambda>(c, i, y). (Some c, i, Some y)) (map key3 out)"
    by (simp add: key3_of_checked_def key3_def)
  ultimately show ?thesis by (metis distinct_map)
qed





lemma yoy_changes_example:
  "map (\<lambda>(r, c). (year r, val r, c))
     (yoy_changes (create_aggregations
        [gdp_row 2012 121 (Some ''2010-2015''), gdp_row 2010 100 (Some ''2000s''),
         gdp_row 2011 110 (Some ''2010-2015'')])) =
     [(2011, 110, Fin 10), (2012, 121, Fin 10)]"
  by code_simp



section \<open>Properties of the upsert\<close>

lemma upsert_hit:
  "i < length t \<Longrightarrow> ukey (t ! i) = ukey new \<Longrightarrow> \<forall>j<i. ukey (t ! j) \<noteq> ukey new
   \<Longrightarrow> upsert ukey on_dup new t = t[i := on_dup (t ! i) new]"
proof (induction t arbitrary: i)
  case Nil
  then show ?case by simp
next
  case (Cons old t)
  show ?case
  proof (cases i)
    case 0
    with Cons.prems show ?thesis by simp
  next
    case (Suc k)
    with Cons.prems have "ukey old \<noteq> ukey new" by auto
    moreover have "upsert ukey on_dup new t = t[k := on_dup (t ! k) new]"
      using Cons.prems Suc by (intro Cons.IH) auto
    ultimately show ?thesis using Suc by simp
  qed
qed

text \<open>
  C7 (main table upsert). When the main table holds a row with the key
  (country_code, indicator_code, year) of the inserted row, the insert changes that
  stored row only, and in it the columns \<^verbatim>\<open>value\<close> and \<^verbatim>\<open>extracted_at\<close> only:
  names, decade, period and continent stay as first written, and no other table changes.
\<close>

theorem main_upsert_overwrites_volatile_only:
  assumes "i < length (economic_indicators t)"
    and "key3 (economic_indicators t ! i) = key3 new"
    and "\<forall>j<i. key3 (economic_indicators t ! j) \<noteq> key3 new"
  shows "apply_op (InsertMain new) t =
           t\<lparr>economic_indicators := (economic_indicators t)
               [i := (economic_indicators t ! i)
                       \<lparr>val := val new, extracted_at := extracted_at new\<rparr>]\<rparr>"
  using upsert_hit [OF assms, of on_duplicate_main]
  by (simp add: apply_op_def on_duplicate_main_def)

theorem main_upsert_overwrites_volatile_only_witness:
  "apply_op
     (InsertMain ((gdp_row 2020 7 (Some ''2020s''))
        \<lparr>country_name := ''Bharat'', extracted_at := 2, continent := None\<rparr>))
     (empty_tables\<lparr>economic_indicators := [gdp_row 2020 5 (Some ''2015-2020'')]\<rparr>) =
   empty_tables\<lparr>economic_indicators :=
     [(gdp_row 2020 5 (Some ''2015-2020''))\<lparr>val := 7, extracted_at := 2\<rparr>]\<rparr>"
  using main_upsert_overwrites_volatile_only
    [of 0 "empty_tables\<lparr>economic_indicators := [gdp_row 2020 5 (Some ''2015-2020'')]\<rparr>"
        "(gdp_row 2020 7 (Some ''2020s''))
           \<lparr>country_name := ''Bharat'', extracted_at := 2, continent := None\<rparr>"]
  by (simp add: key3_def gdp_row_def)

section \<open>Properties of the load\<close>

lemma keys_upsert:
  assumes "\<And>old new. ukey (f old new) = ukey old"
  shows "ukey ` set (upsert ukey f r t) = insert (ukey r) (ukey ` set t)"
  using assms by (induction t) auto

lemma upsert_absorb:
  assumes "\<And>old new. ukey (f old new) = ukey old"
    and "\<And>old a b. f (f old a) b = f old b"
    and "ukey r = ukey s" and "ukey s \<in> ukey ` set t"
  shows "upsert ukey f r (upsert ukey f s t) = upsert ukey f r t"
  using assms by (induction t) auto

lemma upsert_commute:
  assumes "\<And>old new. ukey (f old new) = ukey old"
    and "ukey r \<noteq> ukey s" and "ukey r \<in> ukey ` set t" and "ukey s \<in> ukey ` set t"
  shows "upsert ukey f r (upsert ukey f s t) = upsert ukey f s (upsert ukey f r t)"
  using assms by (induction t) auto

lemma upsert_append_present:
  "ukey r \<in> ukey ` set t \<Longrightarrow> upsert ukey f r (t @ t2) = upsert ukey f r t @ t2"
  by (induction t) auto

lemma upsert_append_absent:
  "ukey r \<notin> ukey ` set t \<Longrightarrow> upsert ukey f r (t @ t2) = t @ upsert ukey f r t2"
  by (induction t) auto

lemma keys_fold_upsert:
  assumes "\<And>old new. ukey (f old new) = ukey old"
  shows "ukey ` set (fold (upsert ukey f) b t) = ukey ` set b \<union> ukey ` set t"
proof (induction b arbitrary: t)
  case Nil
  then show ?case by simp
next
  case (Cons s b)
  then show ?case by (simp add: keys_upsert [of ukey f, OF assms])
qed

lemma fold_upsert_append:
  assumes "\<And>old new. ukey (f old new) = ukey old"
  shows "ukey ` set b \<subseteq> ukey ` set t \<Longrightarrow>
         fold (upsert ukey f) b (t @ t2) = fold (upsert ukey f) b t @ t2"
proof (induction b arbitrary: t)
  case Nil
  then show ?case by simp
next
  case (Cons s b)
  from Cons.prems have s: "ukey s \<in> ukey ` set t" by simp
  have "ukey ` set b \<subseteq> ukey ` set (upsert ukey f s t)"
    using Cons.prems by (auto simp add: keys_upsert [of ukey f, OF assms])
  then show ?case using Cons.IH s by (simp add: upsert_append_present)
qed

lemma fold_upsert_pull:
  assumes A1: "\<And>old new. ukey (f old new) = ukey old"
    and A2: "\<And>old a b. f (f old a) b = f old b"
  shows "ukey ` set b \<subseteq> ukey ` set t \<Longrightarrow> ukey r \<in> ukey ` set t \<Longrightarrow>
         upsert ukey f r (fold (upsert ukey f) b (upsert ukey f r t)) =
         upsert ukey f r (fold (upsert ukey f) b t)"
proof (induction b arbitrary: t)
  case Nil
  then show ?case using upsert_absorb [of ukey f r r t, OF A1 A2] by simp
next
  case (Cons s b)
  from Cons.prems have s: "ukey s \<in> ukey ` set t" and r: "ukey r \<in> ukey ` set t"
    and b: "ukey ` set b \<subseteq> ukey ` set t" by auto
  show ?case
  proof (cases "ukey s = ukey r")
    case True
    then have "upsert ukey f s (upsert ukey f r t) = upsert ukey f s t"
      using upsert_absorb [of ukey f s r t, OF A1 A2] r by simp
    then show ?thesis by simp
  next
    case False
    then have "upsert ukey f s (upsert ukey f r t) = upsert ukey f r (upsert ukey f s t)"
      using upsert_commute [of ukey f s r t, OF A1] r s by simp
    moreover have "upsert ukey f r (fold (upsert ukey f) b (upsert ukey f r (upsert ukey f s t))) =
        upsert ukey f r (fold (upsert ukey f) b (upsert ukey f s t))"
      using b r by (intro Cons.IH) (auto simp add: keys_upsert [of ukey f, OF A1])
    ultimately show ?thesis by simp
  qed
qed

lemma fold_upsert_idem:
  assumes A1: "\<And>old new. ukey (f old new) = ukey old"
    and A2: "\<And>old a b. f (f old a) b = f old b"
    and A3: "\<And>r. f r r = r"
  shows "fold (upsert ukey f) b (fold (upsert ukey f) b t) = fold (upsert ukey f) b t"
proof (induction b rule: rev_induct)
  case Nil
  then show ?case by simp
next
  case (snoc r b)
  let ?u = "upsert ukey f"
  let ?Y = "fold ?u b t"
  have keys: "ukey ` set b \<subseteq> ukey ` set ?Y"
    by (simp add: keys_fold_upsert [of ukey f, OF A1])
  have "?u r (fold ?u b (?u r ?Y)) = ?u r ?Y"
  proof (cases "ukey r \<in> ukey ` set ?Y")
    case True
    then have "?u r (fold ?u b (?u r ?Y)) = ?u r (fold ?u b ?Y)"
      using fold_upsert_pull [of ukey f b ?Y r, OF A1 A2] keys by simp
    then show ?thesis using snoc.IH by simp
  next
    case False
    then have new: "?u r ?Y = ?Y @ [r]"
      using upsert_append_absent [of ukey r ?Y f "[]"] by simp
    have "fold ?u b (?Y @ [r]) = fold ?u b ?Y @ [r]"
      using fold_upsert_append [of ukey f b ?Y "[r]", OF A1] keys by simp
    then have "fold ?u b (?u r ?Y) = ?Y @ [r]" using new snoc.IH by simp
    moreover have "?u r (?Y @ [r]) = ?Y @ [r]"
      using upsert_append_absent [of ukey r ?Y f "[r]"] False A3 by simp
    ultimately show ?thesis using new by simp
  qed
  then show ?case by simp
qed


lemma fold_upsert_main_idem:
  "fold (upsert key3 on_duplicate_main) b (fold (upsert key3 on_duplicate_main) b t) =
   fold (upsert key3 on_duplicate_main) b t"
  by (rule fold_upsert_idem) (simp_all add: on_duplicate_main_def key3_def)

lemma fold_upsert_latest_idem:
  "fold (upsert unique_latest on_duplicate_latest) b
     (fold (upsert unique_latest on_duplicate_latest) b t) =
   fold (upsert unique_latest on_duplicate_latest) b t"
  by (rule fold_upsert_idem)
     (auto simp add: on_duplicate_latest_def unique_latest_def split: prod.splits)

lemma fold_upsert_yoy_idem:
  "fold (upsert unique_yoy on_duplicate_yoy) b (fold (upsert unique_yoy on_duplicate_yoy) b t) =
   fold (upsert unique_yoy on_duplicate_yoy) b t"
  by (rule fold_upsert_idem)
     (auto simp add: on_duplicate_yoy_def unique_yoy_def split: prod.splits)

lemma fold_upsert_summary_idem:
  "fold (upsert unique_country on_duplicate_summary) b
     (fold (upsert unique_country on_duplicate_summary) b t) =
   fold (upsert unique_country on_duplicate_summary) b t"
  by (rule fold_upsert_idem)
     (auto simp add: on_duplicate_summary_def unique_country_def split: prod.splits)

lemma fold_insert_main:
  "fold apply_op (map (\<lambda>r. InsertMain (g r)) rows) t =
     t\<lparr>economic_indicators :=
         fold (upsert key3 on_duplicate_main) (map g rows) (economic_indicators t)\<rparr>"
  by (induction rows arbitrary: t) (simp_all add: apply_op_def)

lemma fold_insert_latest:
  "fold apply_op (map (\<lambda>r. InsertLatest (g r)) rows) t =
     t\<lparr>latest_indicators :=
         fold (upsert unique_latest on_duplicate_latest) (map g rows) (latest_indicators t)\<rparr>"
  by (induction rows arbitrary: t) (simp_all add: apply_op_def)

lemma fold_insert_yoy:
  "fold apply_op (map (\<lambda>r. InsertYoY (g r)) rows) t =
     t\<lparr>yoy_changes_table :=
         fold (upsert unique_yoy on_duplicate_yoy) (map g rows) (yoy_changes_table t)\<rparr>"
  by (induction rows arbitrary: t) (simp_all add: apply_op_def)

lemma fold_load_ops:
  "fold apply_op (load_ops df s) t =
     \<lparr>economic_indicators =
        fold (upsert key3 on_duplicate_main) (map main_values df) (economic_indicators t),
      latest_indicators =
        fold (upsert unique_latest on_duplicate_latest)
          (map latest_values_of (latest_values s)) (latest_indicators t),
      yoy_changes_table =
        fold (upsert unique_yoy on_duplicate_yoy)
          (map yoy_values_of (filter (\<lambda>(r, c). c \<noteq> NaN) (yoy_changes s)))
          (yoy_changes_table t),
      country_summary =
        fold (upsert unique_country on_duplicate_summary)
          (summary_select
             (fold (upsert key3 on_duplicate_main) (map main_values df)
                (economic_indicators t)))
          (country_summary t)\<rparr>"
  by (simp add: load_ops_def fold_insert_main fold_insert_latest fold_insert_yoy apply_op_def)

lemma fold_load_ops_idem:
  "fold apply_op (load_ops df s) (fold apply_op (load_ops df s) t) =
   fold apply_op (load_ops df s) t"
  by (simp add: fold_load_ops fold_upsert_main_idem fold_upsert_latest_idem
      fold_upsert_yoy_idem fold_upsert_summary_idem)

lemma and_then_None:
  "and_then res f = (None, d') \<longleftrightarrow> (\<exists>d1. res = (None, d1) \<and> f d1 = (None, d'))"
  by (cases res) (auto simp add: and_then_def split: option.splits)

lemma execute_None:
  "execute fails op d = (None, d') \<longleftrightarrow>
     \<not> fails op \<and> d' = d\<lparr>working := apply_op op (working d)\<rparr>"
  by (auto simp add: execute_def)

lemma commit_None:
  "commit fails d = (None, d') \<longleftrightarrow> \<not> fails Commit \<and> d' = d\<lparr>committed := working d\<rparr>"
  by (auto simp add: commit_def)

lemma execute_each_None:
  "execute_each fails ops d = (None, d') \<longleftrightarrow>
     (\<forall>op \<in> set ops. \<not> fails op) \<and> d' = d\<lparr>working := fold apply_op ops (working d)\<rparr>"
proof (induction ops arbitrary: d)
  case Nil
  then show ?case by auto
next
  case (Cons op ops)
  then show ?case by (auto simp add: and_then_None execute_None)
qed

lemma rollback_on_error_None:
  "(case res of (None, d') \<Rightarrow> (None, d') | (Some e, d') \<Rightarrow> (Some e, rollback d')) = (None, d1)
   \<longleftrightarrow> res = (None, d1)"
  by (cases res) (auto split: option.splits)

lemma create_tables_None:
  "create_tables fails d = (None, d') \<longleftrightarrow>
     \<not> fails CreateTables \<and> \<not> fails Commit \<and>
     d' = \<lparr>committed = working d, working = working d\<rparr>"
  by (auto simp add: create_tables_def and_then_None execute_None commit_None apply_op_def)

lemma load_main_data_None:
  "load_main_data fails df d = (None, d') \<longleftrightarrow>
     (\<forall>r \<in> set df. \<not> fails (InsertMain (main_values r))) \<and> \<not> fails Commit \<and>
     d' = \<lparr>committed = fold apply_op (map (\<lambda>r. InsertMain (main_values r)) df) (working d),
            working = fold apply_op (map (\<lambda>r. InsertMain (main_values r)) df) (working d)\<rparr>"
  by (auto simp add: load_main_data_def rollback_on_error_None and_then_None
      execute_each_None commit_None)

lemma load_aggregations_None:
  "load_aggregations fails s d = (None, d') \<longleftrightarrow>
     (\<forall>r \<in> set (latest_values s). \<not> fails (InsertLatest (latest_values_of r))) \<and>
     (\<forall>x \<in> set (filter (\<lambda>(r, c). c \<noteq> NaN) (yoy_changes s)).
        \<not> fails (InsertYoY (yoy_values_of x))) \<and>
     \<not> fails Commit \<and>
     d' = \<lparr>committed =
             fold apply_op
               (map (\<lambda>r. InsertLatest (latest_values_of r)) (latest_values s)
                @ map (\<lambda>x. InsertYoY (yoy_values_of x))
                    (filter (\<lambda>(r, c). c \<noteq> NaN) (yoy_changes s)))
               (working d),
            working =
             fold apply_op
               (map (\<lambda>r. InsertLatest (latest_values_of r)) (latest_values s)
                @ map (\<lambda>x. InsertYoY (yoy_values_of x))
                    (filter (\<lambda>(r, c). c \<noteq> NaN) (yoy_changes s)))
               (working d)\<rparr>"
  by (auto simp add: load_aggregations_def rollback_on_error_None and_then_None
      execute_each_None commit_None)

lemma create_country_summary_None:
  "create_country_summary fails d = (None, d') \<longleftrightarrow>
     \<not> fails InsertSummary \<and> \<not> fails Commit \<and>
     d' = \<lparr>committed = apply_op InsertSummary (working d),
            working = apply_op InsertSummary (working d)\<rparr>"
  by (auto simp add: create_country_summary_def and_then_None execute_None commit_None)

lemma load_steps_None:
  "load_steps fails df s d = (None, d1) \<longleftrightarrow>
     \<not> fails Commit \<and> (\<forall>op \<in> set (load_ops df s). \<not> fails op) \<and>
     d1 = \<lparr>committed = fold apply_op (load_ops df s) (working d),
            working = fold apply_op (load_ops df s) (working d)\<rparr>"
  by (auto simp add: load_steps_def and_then_None create_tables_None load_main_data_None
      load_aggregations_None create_country_summary_None load_ops_def apply_op_def)

lemma execute_each_committed:
  "execute_each fails ops d = (res, d') \<Longrightarrow> committed d' = committed d"
proof (induction ops arbitrary: d)
  case Nil
  then show ?case by simp
next
  case (Cons op ops)
  then show ?case
    by (auto simp add: and_then_def execute_def split: if_splits)
qed

lemma load_main_data_error:
  assumes "load_main_data fails df d = (Some e, d')"
  shows "d' = \<lparr>committed = committed d, working = committed d\<rparr>"
proof -
  obtain res d1 where ex: "execute_each fails (map (\<lambda>r. InsertMain (main_values r)) df) d = (res, d1)"
    by (cases "execute_each fails (map (\<lambda>r. InsertMain (main_values r)) df) d") auto
  then have "committed d1 = committed d" by (rule execute_each_committed)
  with assms ex show ?thesis
    by (cases res)
       (auto simp add: load_main_data_def and_then_def commit_def rollback_def split: if_splits)
qed

lemma load_aggregations_error:
  assumes "load_aggregations fails s d = (Some e, d')"
  shows "d' = \<lparr>committed = committed d, working = committed d\<rparr>"
proof -
  obtain res d1 where ex1:
    "execute_each fails (map (\<lambda>r. InsertLatest (latest_values_of r)) (latest_values s)) d = (res, d1)"
    by (cases "execute_each fails (map (\<lambda>r. InsertLatest (latest_values_of r)) (latest_values s)) d")
       auto
  obtain res2 d2 where ex2:
    "execute_each fails
       (map (\<lambda>x. InsertYoY (yoy_values_of x)) (filter (\<lambda>(r, c). c \<noteq> NaN) (yoy_changes s))) d1 =
     (res2, d2)"
    by (cases "execute_each fails
       (map (\<lambda>x. InsertYoY (yoy_values_of x)) (filter (\<lambda>(r, c). c \<noteq> NaN) (yoy_changes s))) d1")
       auto
  from ex1 have c1: "committed d1 = committed d" by (rule execute_each_committed)
  from ex2 have c2: "committed d2 = committed d1" by (rule execute_each_committed)
  from assms ex1 ex2 c1 c2 show ?thesis
    by (cases res; cases res2)
       (auto simp add: load_aggregations_def and_then_def commit_def rollback_def
          split: if_splits)
qed

text \<open>
  C1 (idempotent load). When the loader calls of a run succeed, the same calls with the
  same frame and the same aggregations on the database they left succeed again and leave
  every table as it was: no table gains a row and no stored column changes. This holds
  from any database state and for any frame and aggregations, in particular for a
  transformed frame with its own aggregations. If the server fails otherwise in the
  second run, a second run that succeeds still leaves the same state.
\<close>

theorem load_twice_same_state:
  assumes "load_steps fails df s d = (None, d1)"
  shows "load_steps fails df s d1 = (None, d1) \<and>
         (\<forall>fails' d2. load_steps fails' df s d1 = (None, d2) \<longrightarrow> d2 = d1)"
  using assms by (auto simp add: load_steps_None fold_load_ops_idem)

lemma load_gdp_rows:
  "load_steps no_failure gdp_rows (create_aggregations gdp_rows)
     \<lparr>committed = empty_tables, working = empty_tables\<rparr> =
   (None, \<lparr>committed = gdp_tables, working = gdp_tables\<rparr>)"
  by code_simp

theorem load_twice_same_state_witness:
  "load_steps no_failure gdp_rows (create_aggregations gdp_rows)
     \<lparr>committed = empty_tables, working = empty_tables\<rparr> =
     (None, \<lparr>committed = gdp_tables, working = gdp_tables\<rparr>)
   \<and> load_steps no_failure gdp_rows (create_aggregations gdp_rows)
       \<lparr>committed = gdp_tables, working = gdp_tables\<rparr> =
     (None, \<lparr>committed = gdp_tables, working = gdp_tables\<rparr>)"
  using load_twice_same_state [OF load_gdp_rows] load_gdp_rows
  by simp

text \<open>
  C8 (rollback on failure). \<open>load_main_data\<close> and \<open>load_aggregations\<close> roll back on
  every error and raise it again (\<open>load_main_data_error\<close>,
  \<open>load_aggregations_error\<close>). \<open>create_country_summary\<close> raises the error again
  without a rollback: when its commit fails, the rows that the statement wrote stay in
  the open transaction, where the main data loader in the same situation discards them.
\<close>

theorem summary_failure_not_rolled_back:
  "create_country_summary commit_fails
     \<lparr>committed = empty_tables\<lparr>economic_indicators := [gdp_row 2020 5 (Some ''2015-2020'')]\<rparr>,
      working = empty_tables\<lparr>economic_indicators := [gdp_row 2020 5 (Some ''2015-2020'')]\<rparr>\<rparr> =
     (Some (Error ''commit failed''),
      \<lparr>committed = empty_tables\<lparr>economic_indicators := [gdp_row 2020 5 (Some ''2015-2020'')]\<rparr>,
       working =
         \<lparr>economic_indicators = [gdp_row 2020 5 (Some ''2015-2020'')],
          latest_indicators = [], yoy_changes_table = [],
          country_summary = [(''IND'', ''India'', 1, Some 5, None, None)]\<rparr>\<rparr>)
   \<and> load_main_data commit_fails [gdp_row 2020 5 (Some ''2015-2020'')]
       \<lparr>committed = empty_tables, working = empty_tables\<rparr> =
     (Some (Error ''commit failed''), \<lparr>committed = empty_tables, working = empty_tables\<rparr>)"
  by code_simp

section \<open>Properties of the pipeline\<close>

text \<open>
  C9 (empty extraction, exit status), as the code has it. When the extraction yields no
  record, \<^verbatim>\<open>run_etl_pipeline\<close> stops before the transform step, logs the error and
  returns \<^verbatim>\<open>False\<close>, with the database as it was. It returns \<^verbatim>\<open>True\<close> exactly
  when the extraction yields a record, the transform succeeds, and either the load
  completes or the connection was refused. The exit status of the process is 0 in every
  case: the script drops the returned boolean.
\<close>

theorem run_outcome:
  "(extracted env = [] \<longrightarrow>
      run_etl_pipeline env store =
        (False, [''STEP 1: EXTRACT'', ''No data extracted. Exiting.''], store))
   \<and> (fst (run_etl_pipeline env store) \<longleftrightarrow>
        extracted env \<noteq> [] \<and>
        (\<exists>df. transform (extracted env) = Inr df \<and>
           (connecting env \<noteq> Connected \<or>
            fst (load_steps (op_fails env) df (create_aggregations df)
                   \<lparr>committed = store, working = store\<rparr>) = None)))
   \<and> fst (main env store) = 0"
  by (auto simp add: run_etl_pipeline_def main_def Let_def truthy_def connect_def
      split: sum.splits prod.splits option.splits connect_outcome.splits)

theorem run_outcome_witness:
  "run_etl_pipeline \<lparr>extracted = [], connecting = Connected, op_fails = no_failure\<rparr>
     empty_tables =
     (False, [''STEP 1: EXTRACT'', ''No data extracted. Exiting.''], empty_tables)
   \<and> fst (main \<lparr>extracted = [], connecting = Connected, op_fails = no_failure\<rparr>
            empty_tables) = 0"
  using run_outcome
    [of "\<lparr>extracted = [], connecting = Connected, op_fails = no_failure\<rparr>" empty_tables]
  by simp

theorem exit_status_zero_on_empty_extraction:
  "\<not> (extracted \<lparr>extracted = [], connecting = Connected, op_fails = no_failure\<rparr> = [] \<longrightarrow>
        fst (main \<lparr>extracted = [], connecting = Connected, op_fails = no_failure\<rparr>
               empty_tables) \<noteq> 0)"
  by (simp add: main_def)

text \<open>
  C10 (refused connection). When the run reaches the load step (a record was extracted
  and the transform succeeded) and \<^verbatim>\<open>connect\<close> returns a falsy value, the pipeline
  runs no loader function, leaves the database as it was, logs success and returns
  \<^verbatim>\<open>True\<close>, whatever the server would have done with the writes.
\<close>

theorem connect_failure_returns_True:
  assumes "extracted env \<noteq> []" and "transform (extracted env) = Inr df"
    and "connecting env \<noteq> Connected"
  shows "\<not> truthy (connect (connecting env)) \<and>
         run_etl_pipeline env store =
          (True, [''STEP 1: EXTRACT'', ''STEP 2: TRANSFORM'', ''STEP 3: LOAD'',
                  ''Pipeline completed successfully''], store)"
  using assms
  by (auto simp add: run_etl_pipeline_def Let_def truthy_def connect_def
      split: connect_outcome.splits)

lemma transform_gdp_records:
  "transform [gdp_record 2020 (Some 2660000000000), gdp_record 2021 (Some 3170000000000)] =
     Inr [gdp_row 2020 2660000000000 (Some ''2015-2020''),
          gdp_row 2021 3170000000000 (Some ''2020s'')]"
  by code_simp

theorem connect_failure_returns_True_witness:
  "run_etl_pipeline
     \<lparr>extracted = [gdp_record 2020 (Some 2660000000000), gdp_record 2021 (Some 3170000000000)],
      connecting = ConnectError, op_fails = no_failure\<rparr> empty_tables =
     (True, [''STEP 1: EXTRACT'', ''STEP 2: TRANSFORM'', ''STEP 3: LOAD'',
             ''Pipeline completed successfully''], empty_tables)"
  using connect_failure_returns_True
    [of "\<lparr>extracted = [gdp_record 2020 (Some 2660000000000),
                        gdp_record 2021 (Some 3170000000000)],
           connecting = ConnectError, op_fails = no_failure\<rparr>"
        "[gdp_row 2020 2660000000000 (Some ''2015-2020''),
          gdp_row 2021 3170000000000 (Some ''2020s'')]" empty_tables]
    transform_gdp_records
  by simp

end
